theory Spec2Isabelle
  imports Complex_Main
begin

section \<open>Values of the host language\<close>

text \<open>
  A JavaScript number is a double. Every finite double is a rational, so a finite number is
  carried as a \<open>rat\<close>; the three other doubles are constructors of their own. No operation
  below rounds: the model only compares numbers and prints integers.
\<close>

datatype jsnum = Finite rat | NaN | PosInf | NegInf

text \<open>
  A JavaScript value as it comes out of \<open>JSON.parse\<close> (what \<open>response.data\<close> holds), plus
  \<open>undefined\<close>. An object is an association list, in key order. Strings are byte lists: a
  character outside ASCII is written as its UTF-8 bytes.
\<close>

datatype jsval =
    JUndefined
  | JNull
  | JBool bool
  | JNum jsnum
  | JStr string
  | JArr "jsval list"
  | JObj "(string \<times> jsval) list"

text \<open>The test \<open>if (data)\<close>: JavaScript's ToBoolean.\<close>

fun truthy :: "jsval \<Rightarrow> bool" where
  "truthy JUndefined = False"
| "truthy JNull = False"
| "truthy (JBool b) = b"
| "truthy (JNum (Finite r)) = (r \<noteq> 0)"
| "truthy (JNum NaN) = False"
| "truthy (JNum PosInf) = True"
| "truthy (JNum NegInf) = True"
| "truthy (JStr s) = (s \<noteq> [])"
| "truthy (JArr xs) = True"
| "truthy (JObj kvs) = True"

text \<open>
  A caught value, reduced to what the code reads of it:
  \<^item> an \<open>Error\<close> object: its name, its message and, for an axios error that carries a
    response, the status and the JSON text of the response data;
  \<^item> a value that is not an \<open>Error\<close> and converts to a string (a thrown string or number):
    the string;
  \<^item> a \<open>Symbol\<close>, with its description: \<open>String(error)\<close> prints it, the interpolation
    \<open>${error}\<close> throws a \<open>TypeError\<close>;
  \<^item> an object with no conversion to a string (\<open>Object.create(null)\<close>): both
    \<open>String(error)\<close> and \<open>${error}\<close> throw a \<open>TypeError\<close>.
\<close>

datatype thrown =
    ErrorObj string string "(nat \<times> string) option"
  | NonError string
  | SymbolValue string
  | NoStringConversion

definition symbol_TypeError :: thrown where
  "symbol_TypeError = ErrorObj ''TypeError'' ''Cannot convert a Symbol value to a string'' None"

definition object_TypeError :: thrown where
  "object_TypeError = ErrorObj ''TypeError'' ''Cannot convert object to primitive value'' None"

text \<open>
  \<open>error instanceof Error ? error.message : String(error)\<close>: the message (\<open>Inr\<close>), or the
  \<open>TypeError\<close> that the conversion throws (\<open>Inl\<close>).
\<close>

fun error_message :: "thrown \<Rightarrow> thrown + string" where
  "error_message (ErrorObj name msg resp) = Inr msg"
| "error_message (NonError s) = Inr s"
| "error_message (SymbolValue d) = Inr (''Symbol('' @ d @ '')'')"
| "error_message NoStringConversion = Inl object_TypeError"

text \<open>
  The interpolation \<open>${error}\<close>: \<open>Error.prototype.toString\<close> for an error object; the string
  (\<open>Inr\<close>), or the \<open>TypeError\<close> that the interpolation throws (\<open>Inl\<close>).
\<close>

definition Error_toString :: "string \<Rightarrow> string \<Rightarrow> string" where
  "Error_toString name msg =
     (if name = [] then msg else if msg = [] then name else name @ '': '' @ msg)"

fun error_to_string :: "thrown \<Rightarrow> thrown + string" where
  "error_to_string (ErrorObj name msg resp) = Inr (Error_toString name msg)"
| "error_to_string (NonError s) = Inr s"
| "error_to_string (SymbolValue d) = Inl symbol_TypeError"
| "error_to_string NoStringConversion = Inl object_TypeError"

text \<open>\<open>axios.isAxiosError(error) && error.response\<close>\<close>

fun axios_response :: "thrown \<Rightarrow> (nat \<times> string) option" where
  "axios_response (ErrorObj name msg resp) = resp"
| "axios_response e = None"

text \<open>
  What \<open>axios\<close> rejects with is always an \<open>Error\<close> object: its name, its message and the
  response it carries, if any.
\<close>

datatype rejection = Rejection string string "(nat \<times> string) option"

fun thrown_of :: "rejection \<Rightarrow> thrown" where
  "thrown_of (Rejection name msg resp) = ErrorObj name msg resp"

fun rejection_message :: "rejection \<Rightarrow> string" where
  "rejection_message (Rejection name msg resp) = msg"

fun rejection_to_string :: "rejection \<Rightarrow> string" where
  "rejection_to_string (Rejection name msg resp) = Error_toString name msg"

section \<open>Decimal numerals\<close>

definition digit_char :: "nat \<Rightarrow> char" where
  "digit_char d = ''0123456789'' ! d"

fun show_nat :: "nat \<Rightarrow> string" where
  "show_nat n = (if n < 10 then [digit_char n] else show_nat (n div 10) @ [digit_char (n mod 10)])"

declare show_nat.simps [simp del]

section \<open>Validation results of the schema library\<close>

text \<open>
  One issue of a failed validation: the path of the offending field and the library's message.
  A failed \<open>safeParse\<close> carries the issues and the error's \<open>message\<close>, which the library
  renders from the issues.
\<close>

record issue =
  path :: "string list"
  message :: string

record zod_error =
  issues :: "issue list"
  error_text :: string

datatype 't safe_parse = ParseSuccess 't | ParseFailure zod_error

section \<open>Effects\<close>

text \<open>
  What a call does to the outside world, in order: console output, the HTTP GET and the HTTP
  POST, a call of \<open>runPolling\<close> that is not awaited, the registration of a signal handler and
  \<open>process.exit\<close>. A console call keeps its arguments apart, as the code passes them.
\<close>

datatype log_arg = Txt string | Val jsval | Err thrown | ZErr zod_error

datatype event =
    Log "log_arg list"
  | LogError "log_arg list"
  | HttpGet string
  | HttpPost string jsval
  | Dispatch
  | OnSignal string
  | Exit nat

text \<open>
  An asynchronous function, run to completion: the events it caused, and either the value its
  promise resolves to (\<open>Inr\<close>) or the value it rejects with (\<open>Inl\<close>). A synchronous function
  is the same, with return and throw.
\<close>

type_synonym 'a io = "event list \<times> (thrown + 'a)"

definition ret :: "'a \<Rightarrow> 'a io" where
  "ret x = ([], Inr x)"

definition throw :: "thrown \<Rightarrow> 'a io" where
  "throw e = ([], Inl e)"

definition emit :: "event \<Rightarrow> unit io" where
  "emit ev = ([ev], Inr ())"

definition await :: "thrown + 'a \<Rightarrow> 'a io" where
  "await r = ([], r)"

definition bind :: "'a io \<Rightarrow> ('a \<Rightarrow> 'b io) \<Rightarrow> 'b io" where
  "bind m f =
     (case m of
        (tr, Inl e) \<Rightarrow> (tr, Inl e)
      | (tr, Inr x) \<Rightarrow> (case f x of (tr', r) \<Rightarrow> (tr @ tr', r)))"

definition seq :: "unit io \<Rightarrow> 'b io \<Rightarrow> 'b io" where
  "seq m k = bind m (\<lambda>_. k)"

definition try_catch :: "'a io \<Rightarrow> (thrown \<Rightarrow> 'a io) \<Rightarrow> 'a io" where
  "try_catch m h =
     (case m of
        (tr, Inl e) \<Rightarrow> (case h e of (tr', r) \<Rightarrow> (tr @ tr', r))
      | (tr, Inr x) \<Rightarrow> (tr, Inr x))"

fun for_each :: "'a list \<Rightarrow> ('a \<Rightarrow> unit io) \<Rightarrow> unit io" where
  "for_each [] f = ret ()"
| "for_each (x # xs) f = seq (f x) (for_each xs f)"

text \<open>The POSTs among the events, and the two halves of a finished call.\<close>

fun posts :: "event list \<Rightarrow> (string \<times> jsval) list" where
  "posts [] = []"
| "posts (HttpPost u b # evs) = (u, b) # posts evs"
| "posts (ev # evs) = posts evs"

definition events :: "'a io \<Rightarrow> event list" where
  "events m = fst m"

definition outcome :: "'a io \<Rightarrow> thrown + 'a" where
  "outcome m = snd m"

section \<open>The polling service\<close>

record PollingConfig =
  url :: string
  interval :: jsnum
  webhookUrl :: string

text \<open>
  The outside world during one cycle: what \<open>axios.get\<close> and \<open>axios.post\<close> answer
  (\<open>Inl\<close>/\<open>Some\<close> the rejection), the current time as \<open>format(now, 'yyyy-MM-dd HH:mm:ss')\<close>
  prints it and as \<open>toISOString\<close> prints it.
\<close>

record world =
  http_get :: "string \<Rightarrow> rejection + jsval"
  http_post :: "string \<Rightarrow> jsval \<Rightarrow> rejection option"
  clock_format :: string
  clock_iso :: string

text \<open>
  The service over a payload type \<open>'t\<close>: its configuration, the schema (\<open>safeParse\<close>, which
  may itself throw), the caller's template function (which may throw, and may read the clock),
  and the handle of the scheduled job, if any. The type \<open>'t\<close> is erased when the program
  runs; \<open>repr\<close> is the value that stands for a validated \<open>'t\<close> then, which is what
  \<open>if (data)\<close> tests and \<open>console.log\<close> prints.
\<close>

record 't PollingService =
  config :: PollingConfig
  schema :: "jsval \<Rightarrow> thrown + 't safe_parse"
  templateFn :: "world \<Rightarrow> 't \<Rightarrow> string \<Rightarrow> thrown + jsval"
  repr :: "'t \<Rightarrow> jsval"
  cronJob :: "nat option"

definition axios_get :: "world \<Rightarrow> string \<Rightarrow> jsval io" where
  "axios_get w u =
     seq (emit (HttpGet u))
       (await (case http_get w u of Inl r \<Rightarrow> Inl (thrown_of r) | Inr d \<Rightarrow> Inr d))"

definition axios_post :: "world \<Rightarrow> string \<Rightarrow> jsval \<Rightarrow> unit io" where
  "axios_post w u body =
     seq (emit (HttpPost u body))
       (await (case http_post w u body of None \<Rightarrow> Inr () | Some r \<Rightarrow> Inl (thrown_of r)))"

text \<open>The title of the error embed: a cross mark (U+274C), then the words.\<close>

definition error_title :: string where
  "error_title = [CHR 0xE2, CHR 0x9D, CHR 0x8C] @ '' Polling Error''"

text \<open>The footer of the error embed: the word, a bullet (U+2022), the timestamp.\<close>

definition error_footer :: "string \<Rightarrow> string" where
  "error_footer timestamp = ''Polling '' @ [CHR 0xE2, CHR 0x80, CHR 0xA2] @ '' '' @ timestamp"

definition sendErrorToDiscord :: "'t PollingService \<Rightarrow> world \<Rightarrow> string \<Rightarrow> unit io" where
  "sendErrorToDiscord svc w errorMessage =
     try_catch
       (let timestamp = clock_format w;
            embed = JObj [(''title'', JStr error_title),
                          (''color'', JNum (Finite 0xFF0000)),
                          (''description'', JStr errorMessage),
                          (''footer'', JObj [(''text'', JStr (error_footer timestamp))])]
        in seq (axios_post w (webhookUrl (config svc)) (JObj [(''embeds'', JArr [embed])]))
               (emit (Log [Txt ''Error sent to Discord successfully''])))
       (\<lambda>error. bind (await (error_to_string error))
                  (\<lambda>text. emit (LogError [Txt (''Error sending error to Discord: '' @ text)])))"

definition sendToDiscord :: "'t PollingService \<Rightarrow> world \<Rightarrow> 't \<Rightarrow> unit io" where
  "sendToDiscord svc w data =
     try_catch
       (let timestamp = clock_format w
        in bind (await (templateFn svc w data timestamp))
             (\<lambda>payload. seq (axios_post w (webhookUrl (config svc)) payload)
                             (emit (Log [Txt ''Data sent to Discord successfully'']))))
       (\<lambda>error. bind (await (error_to_string error))
                  (\<lambda>text. emit (LogError [Txt (''Error sending to Discord: '' @ text)])))"

text \<open>
  \<open>fetchData\<close> resolves to \<open>T | null\<close>: \<open>Some\<close> the validated value, or \<open>None\<close> for
  \<open>null\<close>. The first statement of its catch block converts the caught value to a string,
  which may throw.
\<close>

definition fetchData :: "'t PollingService \<Rightarrow> world \<Rightarrow> 't option io" where
  "fetchData svc w =
     try_catch
       (seq (emit (Log [Txt (''Fetching data from: '' @ url (config svc))]))
         (bind (axios_get w (url (config svc)))
           (\<lambda>response_data. bind (await (schema svc response_data))
             (\<lambda>validationResult.
                case validationResult of
                  ParseFailure err \<Rightarrow>
                    seq (emit (LogError [Txt ''Schema validation failed:'', ZErr err]))
                      (seq (sendErrorToDiscord svc w
                              (''Schema validation failed: '' @ error_text err))
                         (ret None))
                | ParseSuccess v \<Rightarrow> ret (Some v)))))
       (\<lambda>error.
          bind (await (error_message error))
            (\<lambda>errorMessage.
               seq (emit (LogError [Txt (''Error fetching data: '' @ errorMessage)]))
                 (seq (case axios_response error of
                         Some (status, data_json) \<Rightarrow>
                           seq (emit (LogError [Txt (''Status: '' @ show_nat status)]))
                               (emit (LogError [Txt (''Data: '' @ data_json)]))
                       | None \<Rightarrow> ret ())
                    (seq (sendErrorToDiscord svc w (''Error fetching data: '' @ errorMessage))
                       (ret None)))))"

text \<open>One cycle. The test \<open>if (data)\<close> fails on \<open>null\<close> and on every other falsy value.\<close>

definition runPolling :: "'t PollingService \<Rightarrow> world \<Rightarrow> unit io" where
  "runPolling svc w =
     seq (emit (Log [Txt (''Polling running at '' @ clock_iso w)]))
       (bind (fetchData svc w)
          (\<lambda>data.
             case data of
               Some v \<Rightarrow>
                 if truthy (repr svc v)
                 then seq (emit (Log [Txt ''Data received:'', Val (repr svc v)]))
                          (sendToDiscord svc w v)
                 else emit (LogError [Txt ''Failed to fetch valid data''])
             | None \<Rightarrow> emit (LogError [Txt ''Failed to fetch valid data''])))"

section \<open>Library behaviour taken as given\<close>

text \<open>
  The parts of the libraries and of the language runtime that this program calls and whose
  code is not part of it. Each field is one such function; the theorems hold for every choice.
  \<^item> \<open>is_url\<close>: the check behind \<open>z.string().url()\<close>;
  \<^item> \<open>number_of_string\<close>: \<open>Number(s)\<close> for a string that is not a short run of digits;
  \<^item> \<open>number_of_object\<close>: \<open>Number(v)\<close> for an array or an object;
  \<^item> \<open>string_of_number\<close>: \<open>String(n)\<close> for a number that is not an integer from 0 below 2^53;
  \<^item> \<open>locale_string\<close>: \<open>n.toLocaleString('en-US')\<close> for a number that is not a positive integer
    below 2^53;
  \<^item> \<open>wording\<close>: the message of an issue of each kind;
  \<^item> \<open>render_issues\<close>: the \<open>message\<close> of a validation error, from its issues;
  \<^item> \<open>cron_error\<close>: what \<open>cron.schedule\<close> throws for an expression it rejects.
\<close>

datatype issue_code = Required | InvalidType | InvalidUrl | NotANumber | NotInteger | NotPositive

record library =
  is_url :: "string \<Rightarrow> bool"
  number_of_string :: "string \<Rightarrow> jsnum"
  number_of_object :: "jsval \<Rightarrow> jsnum"
  string_of_number :: "jsnum \<Rightarrow> string"
  locale_string :: "jsnum \<Rightarrow> string"
  wording :: "issue_code \<Rightarrow> string"
  render_issues :: "issue list \<Rightarrow> string"
  cron_error :: "string \<Rightarrow> thrown"

definition is_digit :: "char \<Rightarrow> bool" where
  "is_digit c = (48 \<le> (of_char c :: nat) \<and> (of_char c :: nat) \<le> 57)"

definition read_nat :: "string \<Rightarrow> nat" where
  "read_nat s = foldl (\<lambda>acc c. 10 * acc + ((of_char c :: nat) - 48)) 0 s"

text \<open>
  \<open>Number(v)\<close>. A run of one to fifteen digits is read in decimal (it is below 2^53, so the
  double is exact).
\<close>

definition Number_of_string :: "library \<Rightarrow> string \<Rightarrow> jsnum" where
  "Number_of_string lib s =
     (if s \<noteq> [] \<and> list_all is_digit s \<and> length s \<le> 15
      then Finite (of_nat (read_nat s))
      else number_of_string lib s)"

fun Number :: "library \<Rightarrow> jsval \<Rightarrow> jsnum" where
  "Number lib JUndefined = NaN"
| "Number lib JNull = Finite 0"
| "Number lib (JBool b) = Finite (if b then 1 else 0)"
| "Number lib (JNum n) = n"
| "Number lib (JStr s) = Number_of_string lib s"
| "Number lib (JArr xs) = number_of_object lib (JArr xs)"
| "Number lib (JObj kvs) = number_of_object lib (JObj kvs)"

text \<open>\<open>Number.isInteger(n)\<close> and \<open>n > 0\<close>.\<close>

fun isInteger :: "jsnum \<Rightarrow> bool" where
  "isInteger (Finite r) = (of_int \<lfloor>r\<rfloor> = r)"
| "isInteger n = False"

fun isPositive :: "jsnum \<Rightarrow> bool" where
  "isPositive (Finite r) = (0 < r)"
| "isPositive PosInf = True"
| "isPositive n = False"

text \<open>
  The interpolation \<open>${n}\<close> of a number: an integer from 0 below 2^53 is printed in decimal,
  digit for digit.
\<close>

definition String_of_number :: "library \<Rightarrow> jsnum \<Rightarrow> string" where
  "String_of_number lib n =
     (case n of
        Finite r \<Rightarrow>
          if of_int \<lfloor>r\<rfloor> = r \<and> 0 \<le> r \<and> r < 2 ^ 53 then show_nat (nat \<lfloor>r\<rfloor>)
          else string_of_number lib n
      | _ \<Rightarrow> string_of_number lib n)"

section \<open>The scheduler library\<close>

text \<open>
  A scheduled task: its cron expression and whether it is running. The scheduler holds the
  tasks created so far; a task's handle is its position.
\<close>

record cron_task =
  expression :: string
  running :: bool

type_synonym scheduler = "cron_task list"

text \<open>
  The minutes of the hour that an expression \<open>*/N * * * *\<close> selects: the multiples of \<open>N\<close>
  among 0..59. A step of zero selects none, which the library rejects. Only this shape is
  read, since it is the only one the program builds; anything else is rejected.
\<close>

definition cron_minutes :: "string \<Rightarrow> nat list option" where
  "cron_minutes expr =
     (case expr of
        a # b # rest \<Rightarrow>
          if a = CHR ''*'' \<and> b = CHR ''/'' \<and> takeWhile is_digit rest \<noteq> []
             \<and> dropWhile is_digit rest = '' * * * *''
             \<and> read_nat (takeWhile is_digit rest) \<noteq> 0
          then Some (filter (\<lambda>m. m mod read_nat (takeWhile is_digit rest) = 0) [0..<60])
          else None
      | _ \<Rightarrow> None)"

text \<open>\<open>cron.schedule(expression, callback)\<close>: validates, then creates a running task.\<close>

definition cron_schedule :: "library \<Rightarrow> scheduler \<Rightarrow> string \<Rightarrow> thrown + (scheduler \<times> nat)" where
  "cron_schedule lib sch expr =
     (case cron_minutes expr of
        None \<Rightarrow> Inl (cron_error lib expr)
      | Some ms \<Rightarrow> Inr (sch @ [\<lparr>expression = expr, running = True\<rparr>], length sch))"

text \<open>\<open>task.stop()\<close>\<close>

definition cron_stop :: "scheduler \<Rightarrow> nat \<Rightarrow> scheduler" where
  "cron_stop sch job = (if job < length sch then sch[job := (sch ! job)\<lparr>running := False\<rparr>] else sch)"

text \<open>Whether a task calls its callback in minute \<open>t\<close> (minutes counted from the start of an hour).\<close>

definition fires_at :: "cron_task \<Rightarrow> nat \<Rightarrow> bool" where
  "fires_at task t =
     (running task \<and>
      (case cron_minutes (expression task) of
         None \<Rightarrow> False
       | Some ms \<Rightarrow> t mod 60 \<in> set ms))"

section \<open>Starting and stopping\<close>

text \<open>
  \<open>start\<close> and \<open>stop\<close> act on the service and on the scheduler. The call
  \<open>this.runPolling()\<close> that is not awaited is the event \<open>Dispatch\<close>.
\<close>

definition start :: "library \<Rightarrow> 't PollingService \<times> scheduler \<Rightarrow> ('t PollingService \<times> scheduler) io" where
  "start lib st =
     (case st of (svc, sch) \<Rightarrow>
        seq (emit Dispatch)
          (let cronExpression = ''*/'' @ String_of_number lib (interval (config svc)) @ '' * * * *''
           in bind (await (cron_schedule lib sch cronExpression))
                (\<lambda>scheduled.
                   seq (emit (Log [Txt (''Polling started! Monitoring every ''
                                        @ String_of_number lib (interval (config svc))
                                        @ '' minutes...'')]))
                       (ret (svc\<lparr>cronJob := Some (snd scheduled)\<rparr>, fst scheduled)))))"

definition stop :: "'t PollingService \<times> scheduler \<Rightarrow> ('t PollingService \<times> scheduler) io" where
  "stop st =
     (case st of (svc, sch) \<Rightarrow>
        (case cronJob svc of
           Some job \<Rightarrow> seq (emit (Log [Txt ''Polling stopped''])) (ret (svc, cron_stop sch job))
         | None \<Rightarrow> ret (svc, sch)))"

section \<open>Schemas\<close>

definition issue_at :: "library \<Rightarrow> string list \<Rightarrow> issue_code \<Rightarrow> issue" where
  "issue_at lib p c = \<lparr>path = p, message = wording lib c\<rparr>"

definition failure :: "library \<Rightarrow> issue list \<Rightarrow> 't safe_parse" where
  "failure lib iss = ParseFailure \<lparr>issues = iss, error_text = render_issues lib iss\<rparr>"

fun issues_of :: "issue list + 'a \<Rightarrow> issue list" where
  "issues_of (Inl iss) = iss"
| "issues_of (Inr x) = []"

text \<open>Reading a key of an object: \<open>undefined\<close> when the key is absent.\<close>

definition get_prop :: "(string \<times> jsval) list \<Rightarrow> string \<Rightarrow> jsval" where
  "get_prop kvs k = (case map_of kvs k of Some v \<Rightarrow> v | None \<Rightarrow> JUndefined)"

text \<open>\<open>z.string()\<close> and \<open>z.string().url()\<close> on the value at path \<open>p\<close>.\<close>

definition z_string :: "library \<Rightarrow> string list \<Rightarrow> jsval \<Rightarrow> issue list + string" where
  "z_string lib p v =
     (case v of
        JStr s \<Rightarrow> Inr s
      | JUndefined \<Rightarrow> Inl [issue_at lib p Required]
      | _ \<Rightarrow> Inl [issue_at lib p InvalidType])"

definition z_string_url :: "library \<Rightarrow> string list \<Rightarrow> jsval \<Rightarrow> issue list + string" where
  "z_string_url lib p v =
     (case z_string lib p v of
        Inl iss \<Rightarrow> Inl iss
      | Inr s \<Rightarrow> if is_url lib s then Inr s else Inl [issue_at lib p InvalidUrl])"

text \<open>
  \<open>z.coerce.number()\<close>: the input goes through \<open>Number\<close>, and \<open>NaN\<close> is not a number for the
  schema. With \<open>.int().positive()\<close> both checks run, and each adds its own issue.
\<close>

definition z_coerce_number :: "library \<Rightarrow> string list \<Rightarrow> jsval \<Rightarrow> issue list + jsnum" where
  "z_coerce_number lib p v =
     (if Number lib v = NaN then Inl [issue_at lib p NotANumber] else Inr (Number lib v))"

definition z_coerce_number_int_positive :: "library \<Rightarrow> string list \<Rightarrow> jsval \<Rightarrow> issue list + jsnum" where
  "z_coerce_number_int_positive lib p v =
     (case z_coerce_number lib p v of
        Inl iss \<Rightarrow> Inl iss
      | Inr n \<Rightarrow>
          (let iss = (if isInteger n then [] else [issue_at lib p NotInteger])
                     @ (if isPositive n then [] else [issue_at lib p NotPositive])
           in if iss = [] then Inr n else Inl iss))"

text \<open>The root of \<open>z.object\<close>: anything but an object is one issue at the empty path.\<close>

definition not_an_object :: "library \<Rightarrow> jsval \<Rightarrow> 't safe_parse" where
  "not_an_object lib input =
     failure lib [issue_at lib [] (if input = JUndefined then Required else InvalidType)]"

record Env =
  POLL_URL :: string
  POLL_INTERVAL :: jsnum
  DISCORD_WEBHOOK_URL :: string

definition EnvSchema :: "library \<Rightarrow> jsval \<Rightarrow> Env safe_parse" where
  "EnvSchema lib input =
     (case input of
        JObj kvs \<Rightarrow>
          (let r1 = z_string_url lib [''POLL_URL''] (get_prop kvs ''POLL_URL'');
               r2 = z_coerce_number_int_positive lib [''POLL_INTERVAL''] (get_prop kvs ''POLL_INTERVAL'');
               r3 = z_string_url lib [''DISCORD_WEBHOOK_URL''] (get_prop kvs ''DISCORD_WEBHOOK_URL'')
           in case (r1, r2, r3) of
                (Inr u, Inr n, Inr h) \<Rightarrow>
                  ParseSuccess \<lparr>POLL_URL = u, POLL_INTERVAL = n, DISCORD_WEBHOOK_URL = h\<rparr>
              | _ \<Rightarrow> failure lib (issues_of r1 @ issues_of r2 @ issues_of r3))
      | _ \<Rightarrow> not_an_object lib input)"

record Payload =
  id_field :: string
  daily_active_users :: jsnum
  weekly_active_users :: jsnum
  monthly_active_users :: jsnum

definition payloadSchema :: "library \<Rightarrow> jsval \<Rightarrow> Payload safe_parse" where
  "payloadSchema lib input =
     (case input of
        JObj kvs \<Rightarrow>
          (let r1 = z_string lib [''id''] (get_prop kvs ''id'');
               r2 = z_coerce_number lib [''daily_active_users''] (get_prop kvs ''daily_active_users'');
               r3 = z_coerce_number lib [''weekly_active_users''] (get_prop kvs ''weekly_active_users'');
               r4 = z_coerce_number lib [''monthly_active_users''] (get_prop kvs ''monthly_active_users'')
           in case (r1, r2, r3, r4) of
                (Inr i, Inr d, Inr wk, Inr m) \<Rightarrow>
                  ParseSuccess \<lparr>id_field = i, daily_active_users = d,
                                weekly_active_users = wk, monthly_active_users = m\<rparr>
              | _ \<Rightarrow> failure lib (issues_of r1 @ issues_of r2 @ issues_of r3 @ issues_of r4))
      | _ \<Rightarrow> not_an_object lib input)"

text \<open>The object that a validated payload is when the program runs.\<close>

definition Payload_repr :: "Payload \<Rightarrow> jsval" where
  "Payload_repr p =
     JObj [(''id'', JStr (id_field p)),
           (''daily_active_users'', JNum (daily_active_users p)),
           (''weekly_active_users'', JNum (weekly_active_users p)),
           (''monthly_active_users'', JNum (monthly_active_users p))]"

section \<open>Loading the configuration\<close>

fun join :: "string \<Rightarrow> string list \<Rightarrow> string" where
  "join sep [] = []"
| "join sep [x] = x"
| "join sep (x # y # ys) = x @ sep @ join sep (y # ys)"

definition env_value :: "string option \<Rightarrow> jsval" where
  "env_value v = (case v of None \<Rightarrow> JUndefined | Some s \<Rightarrow> JStr s)"

text \<open>\<open>loadEnvs\<close> reads \<open>process.env\<close>, here the map \<open>penv\<close>.\<close>

definition loadEnvs :: "library \<Rightarrow> (string \<Rightarrow> string option) \<Rightarrow> Env io" where
  "loadEnvs lib penv =
     try_catch
       (let env = JObj [(''POLL_URL'', env_value (penv ''POLL_URL'')),
                        (''POLL_INTERVAL'', env_value (penv ''POLL_INTERVAL'')),
                        (''DISCORD_WEBHOOK_URL'', env_value (penv ''DISCORD_WEBHOOK_URL''))];
            result = EnvSchema lib env
        in case result of
             ParseFailure err \<Rightarrow>
               seq (emit (LogError [Txt ''Invalid environment configuration:'']))
                 (seq (for_each (issues err)
                         (\<lambda>issue. emit (LogError [Txt (''- '' @ join ''.'' (path issue) @ '': ''
                                                       @ message issue)])))
                    (throw (ErrorObj ''Error'' ''Invalid environment configuration'' None)))
           | ParseSuccess data \<Rightarrow> ret data)
       (\<lambda>error. throw error)"

section \<open>The message and the program\<close>

text \<open>
  \<open>num.toLocaleString('en-US')\<close>: a positive integer below 2^53 is printed in decimal with
  a comma between groups of three digits.
\<close>

fun group3 :: "string \<Rightarrow> string" where
  "group3 (a # b # c # d # ds) = a # b # c # CHR '','' # group3 (d # ds)"
| "group3 ds = ds"

definition toLocaleString :: "library \<Rightarrow> jsnum \<Rightarrow> string" where
  "toLocaleString lib n =
     (case n of
        Finite r \<Rightarrow>
          if of_int \<lfloor>r\<rfloor> = r \<and> 0 < r \<and> r < 2 ^ 53
          then rev (group3 (rev (show_nat (nat \<lfloor>r\<rfloor>))))
          else locale_string lib n
      | _ \<Rightarrow> locale_string lib n)"

definition metric_field :: "string \<Rightarrow> string \<Rightarrow> jsval" where
  "metric_field name val = JObj [(''name'', JStr name), (''value'', JStr val), (''inline'', JBool True)]"

text \<open>
  The title starts with a bar chart (U+1F4CA), the footer with a satellite antenna (U+1F4E1)
  and holds a bullet (U+2022). The thumbnail is added when \<open>THUMBNAIL\<close> is set and not empty.
\<close>

definition createDiscordMessage ::
    "library \<Rightarrow> (string \<Rightarrow> string option) \<Rightarrow> world \<Rightarrow> Payload \<Rightarrow> string \<Rightarrow> jsval" where
  "createDiscordMessage lib penv w data timestamp =
     (let thumbnail = penv ''THUMBNAIL'';
          formatNumber = toLocaleString lib
      in JObj [(''embeds'', JArr [JObj (
           [(''title'', JStr ([CHR 0xF0, CHR 0x9F, CHR 0x93, CHR 0x8A] @ '' Active User Metrics'')),
            (''color'', JNum (Finite 0x3498DB)),
            (''fields'', JArr [
               metric_field ''Daily Active Users''
                 (''**'' @ formatNumber (daily_active_users data) @ ''**''),
               metric_field ''Weekly Active Users''
                 (''**'' @ formatNumber (weekly_active_users data) @ ''**''),
               metric_field ''Monthly Active Users''
                 (''**'' @ formatNumber (monthly_active_users data) @ ''**'')])]
           @ (case thumbnail of
                Some t \<Rightarrow> if t \<noteq> [] then [(''thumbnail'', JObj [(''url'', JStr t)])] else []
              | None \<Rightarrow> [])
           @ [(''footer'', JObj [(''text'', JStr ([CHR 0xF0, CHR 0x9F, CHR 0x93, CHR 0xA1]
                                   @ '' Metrics updated '' @ [CHR 0xE2, CHR 0x80, CHR 0xA2]
                                   @ '' '' @ timestamp))]),
              (''timestamp'', JStr (clock_iso w))])])])"

text \<open>The service that \<open>main\<close> builds from a loaded configuration.\<close>

definition new_PollingService ::
    "library \<Rightarrow> (string \<Rightarrow> string option) \<Rightarrow> Env \<Rightarrow> Payload PollingService" where
  "new_PollingService lib penv env =
     \<lparr>config = \<lparr>url = POLL_URL env, interval = POLL_INTERVAL env,
                webhookUrl = DISCORD_WEBHOOK_URL env\<rparr>,
      schema = (\<lambda>v. Inr (payloadSchema lib v)),
      templateFn = (\<lambda>w data timestamp. Inr (createDiscordMessage lib penv w data timestamp)),
      repr = Payload_repr,
      cronJob = None\<rparr>"

text \<open>
  \<open>main\<close>: the state it leaves running, or \<open>None\<close> after \<open>process.exit(1)\<close>.
\<close>

definition main ::
    "library \<Rightarrow> (string \<Rightarrow> string option) \<Rightarrow> scheduler
       \<Rightarrow> (Payload PollingService \<times> scheduler) option io" where
  "main lib penv sch =
     try_catch
       (bind (loadEnvs lib penv)
          (\<lambda>env. bind (start lib (new_PollingService lib penv env, sch))
             (\<lambda>st. seq (emit (OnSignal ''SIGINT''))
                     (seq (emit (OnSignal ''SIGTERM'')) (ret (Some st))))))
       (\<lambda>error.
          seq (emit (LogError [Txt ''Failed to start polling service:'', Err error]))
            (seq (emit (LogError [Txt ''Make sure you have properly configured the environment variables:'']))
               (seq (emit (LogError [Txt ''- POLL_URL: The URL to poll data from'']))
                  (seq (emit (LogError [Txt ''- POLL_INTERVAL: How often to poll in minutes'']))
                     (seq (emit (LogError [Txt ''- DISCORD_WEBHOOK_URL: Discord webhook URL to send notifications'']))
                        (seq (emit (Exit 1)) (ret None)))))))"

section \<open>Notions used in the statements\<close>

text \<open>The body of an error notification with a given message and timestamp.\<close>

definition error_notification :: "string \<Rightarrow> string \<Rightarrow> jsval" where
  "error_notification msg timestamp =
     JObj [(''embeds'', JArr [JObj [(''title'', JStr error_title),
                                   (''color'', JNum (Finite 0xFF0000)),
                                   (''description'', JStr msg),
                                   (''footer'', JObj [(''text'', JStr (error_footer timestamp))])]])]"

text \<open>
  How the first two stages of a cycle end, read off the world:
  \<^item> \<open>Validated\<close>: the GET answers and the schema accepts the answer;
  \<^item> \<open>Reported\<close>, with the message that is reported: the GET fails, or the schema throws a
    value that \<open>String\<close> converts, or the schema rejects the answer;
  \<^item> \<open>ConversionThrows\<close>, with the \<open>TypeError\<close>: the schema throws a value that \<open>String\<close>
    does not convert.
\<close>

datatype 't stage = Validated 't | Reported string | ConversionThrows thrown

definition caught_stage :: "thrown \<Rightarrow> 't stage" where
  "caught_stage e =
     (case error_message e of
        Inl type_error \<Rightarrow> ConversionThrows type_error
      | Inr msg \<Rightarrow> Reported (''Error fetching data: '' @ msg))"

definition fetch_stage :: "'t PollingService \<Rightarrow> world \<Rightarrow> 't stage" where
  "fetch_stage svc w =
     (case http_get w (url (config svc)) of
        Inl r \<Rightarrow> caught_stage (thrown_of r)
      | Inr d \<Rightarrow>
          (case schema svc d of
             Inl e \<Rightarrow> caught_stage e
           | Inr (ParseFailure err) \<Rightarrow> Reported (''Schema validation failed: '' @ error_text err)
           | Inr (ParseSuccess v) \<Rightarrow> Validated v))"

text \<open>The fields of the first embed of a message.\<close>

definition embed_fields :: "jsval \<Rightarrow> jsval list" where
  "embed_fields msg =
     (case msg of
        JObj kvs \<Rightarrow>
          (case get_prop kvs ''embeds'' of
             JArr (JObj e # es) \<Rightarrow> (case get_prop e ''fields'' of JArr fs \<Rightarrow> fs | _ \<Rightarrow> [])
           | _ \<Rightarrow> [])
      | _ \<Rightarrow> [])"

text \<open>
  A configuration value is valid when it is present and a URL, for the two URLs, and when
  \<open>Number\<close> of it is an integer above zero, for the interval.
\<close>

definition field_valid :: "library \<Rightarrow> (string \<Rightarrow> string option) \<Rightarrow> string \<Rightarrow> bool" where
  "field_valid lib penv k =
     (if k = ''POLL_INTERVAL''
      then isInteger (Number lib (env_value (penv k))) \<and> isPositive (Number lib (env_value (penv k)))
      else (case penv k of None \<Rightarrow> False | Some s \<Rightarrow> is_url lib s))"

definition invalid_fields :: "library \<Rightarrow> (string \<Rightarrow> string option) \<Rightarrow> string list" where
  "invalid_fields lib penv =
     filter (\<lambda>k. \<not> field_valid lib penv k) [''POLL_URL'', ''POLL_INTERVAL'', ''DISCORD_WEBHOOK_URL'']"

text \<open>The issues that the schema finds in the environment, field by field.\<close>

definition env_issues :: "library \<Rightarrow> (string \<Rightarrow> string option) \<Rightarrow> issue list" where
  "env_issues lib penv =
     issues_of (z_string_url lib [''POLL_URL''] (env_value (penv ''POLL_URL'')))
     @ issues_of (z_coerce_number_int_positive lib [''POLL_INTERVAL'']
                    (env_value (penv ''POLL_INTERVAL'')))
     @ issues_of (z_string_url lib [''DISCORD_WEBHOOK_URL'']
                    (env_value (penv ''DISCORD_WEBHOOK_URL'')))"

section \<open>Example services and worlds\<close>

definition example_config :: "nat \<Rightarrow> PollingConfig" where
  "example_config n =
     \<lparr>url = ''http://source.example/metrics'', interval = Finite (of_nat n),
      webhookUrl = ''http://hook.example/w''\<rparr>"

text \<open>
  A service over numbers, with the schema \<open>z.number()\<close>, and one whose template function
  throws.
\<close>

definition number_schema :: "jsval \<Rightarrow> thrown + jsnum safe_parse" where
  "number_schema v =
     (case v of
        JNum n \<Rightarrow>
          if n = NaN
          then Inr (ParseFailure \<lparr>issues = [\<lparr>path = [], message = ''Expected number, received nan''\<rparr>],
                                  error_text = ''Expected number, received nan''\<rparr>)
          else Inr (ParseSuccess n)
      | _ \<Rightarrow> Inr (ParseFailure \<lparr>issues = [\<lparr>path = [], message = ''Expected number''\<rparr>],
                                 error_text = ''Expected number''\<rparr>))"

definition number_service :: "nat \<Rightarrow> jsnum PollingService" where
  "number_service n =
     \<lparr>config = example_config n,
      schema = number_schema,
      templateFn = (\<lambda>w v timestamp. Inr (JObj [(''content'', JStr timestamp)])),
      repr = JNum,
      cronJob = None\<rparr>"

definition throwing_service :: "jsnum PollingService" where
  "throwing_service =
     \<lparr>config = example_config 1,
      schema = number_schema,
      templateFn = (\<lambda>w v timestamp. Inl (ErrorObj ''Error'' ''template failed'' None)),
      repr = JNum,
      cronJob = None\<rparr>"

text \<open>A service whose schema has a refinement that throws on a negative number.\<close>

definition refining_schema :: "jsval \<Rightarrow> thrown + jsnum safe_parse" where
  "refining_schema v =
     (case v of
        JNum (Finite r) \<Rightarrow>
          if r < 0 then Inl (ErrorObj ''Error'' ''negative count'' None)
          else Inr (ParseSuccess (Finite r))
      | _ \<Rightarrow> number_schema v)"

definition refining_service :: "jsnum PollingService" where
  "refining_service =
     \<lparr>config = example_config 1,
      schema = refining_schema,
      templateFn = (\<lambda>w v timestamp. Inr (JObj [(''content'', JStr timestamp)])),
      repr = JNum,
      cronJob = None\<rparr>"

text \<open>
  A service whose template function throws a \<open>Symbol\<close>, and one whose schema has a
  refinement that throws an object with no string conversion on \<open>null\<close>.
\<close>

definition symbol_service :: "jsnum PollingService" where
  "symbol_service =
     \<lparr>config = example_config 1,
      schema = number_schema,
      templateFn = (\<lambda>w v timestamp. Inl (SymbolValue ''template'')),
      repr = JNum,
      cronJob = None\<rparr>"

definition opaque_schema :: "jsval \<Rightarrow> thrown + jsnum safe_parse" where
  "opaque_schema v = (case v of JNull \<Rightarrow> Inl NoStringConversion | _ \<Rightarrow> number_schema v)"

definition opaque_service :: "jsnum PollingService" where
  "opaque_service =
     \<lparr>config = example_config 1,
      schema = opaque_schema,
      templateFn = (\<lambda>w v timestamp. Inr (JObj [(''content'', JStr timestamp)])),
      repr = JNum,
      cronJob = None\<rparr>"

text \<open>A world that answers the GET with \<open>r\<close> and the POST with \<open>p\<close>.\<close>

definition example_world :: "rejection + jsval \<Rightarrow> rejection option \<Rightarrow> world" where
  "example_world r p =
     \<lparr>http_get = (\<lambda>u. r), http_post = (\<lambda>u body. p),
      clock_format = ''2024-05-01 12:00:00'', clock_iso = ''2024-05-01T12:00:00.000Z''\<rparr>"

definition connection_refused :: rejection where
  "connection_refused = Rejection ''Error'' ''connect ECONNREFUSED 127.0.0.1:80'' None"

definition example_library :: library where
  "example_library =
     \<lparr>is_url = (\<lambda>s. take 7 s = ''http://''),
      number_of_string = (\<lambda>s. NaN),
      number_of_object = (\<lambda>v. NaN),
      string_of_number = (\<lambda>n. ''NaN''),
      locale_string = (\<lambda>n. ''NaN''),
      wording = (\<lambda>c. ''Invalid''),
      render_issues = (\<lambda>iss. join ''; '' (map message iss)),
      cron_error = (\<lambda>expr. ErrorObj ''Error'' (expr @ '' is not a valid expression'') None)\<rparr>"

definition example_env :: "string \<Rightarrow> string option" where
  "example_env k =
     (if k = ''POLL_URL'' then Some ''http://source.example/metrics''
      else if k = ''DISCORD_WEBHOOK_URL'' then Some ''not a url''
      else None)"

text \<open>The payload of the scenario with a number written as a string.\<close>

definition scenario_payload :: jsval where
  "scenario_payload =
     JObj [(''id'', JStr ''u1''),
           (''daily_active_users'', JStr ''1234''),
           (''weekly_active_users'', JNum (Finite 5000)),
           (''monthly_active_users'', JNum (Finite 20000))]"

section \<open>Facts about the effects\<close>

lemma bind_Inl [simp]: "bind (tr, Inl e) f = (tr, Inl e)"
  by (simp add: bind_def)

lemma bind_Inr [simp]: "bind (tr, Inr x) f = (tr @ fst (f x), snd (f x))"
  by (simp add: bind_def split: prod.splits)

lemma try_catch_Inl [simp]: "try_catch (tr, Inl e) h = (tr @ fst (h e), snd (h e))"
  by (simp add: try_catch_def split: prod.splits)

lemma try_catch_Inr [simp]: "try_catch (tr, Inr x) h = (tr, Inr x)"
  by (simp add: try_catch_def)

lemmas io_defs = ret_def throw_def emit_def await_def seq_def events_def outcome_def
  axios_get_def axios_post_def

lemma posts_append [simp]: "posts (xs @ ys) = posts xs @ posts ys"
  by (induction xs rule: posts.induct) simp_all

lemma for_each_single: "for_each xs (\<lambda>x. ([f x], Inr ())) = (map f xs, Inr ())"
  by (induction xs) (simp_all add: io_defs)

section \<open>The two deliveries\<close>

lemma error_to_string_thrown_of [simp]:
  "error_to_string (thrown_of r) = Inr (rejection_to_string r)"
  by (cases r) simp

lemma error_message_thrown_of [simp]:
  "error_message (thrown_of r) = Inr (rejection_message r)"
  by (cases r) simp

lemma sendErrorToDiscord_eq:
  "sendErrorToDiscord svc w msg =
     ([HttpPost (webhookUrl (config svc)) (error_notification msg (clock_format w)),
       (case http_post w (webhookUrl (config svc)) (error_notification msg (clock_format w)) of
          None \<Rightarrow> Log [Txt ''Error sent to Discord successfully'']
        | Some r \<Rightarrow> LogError [Txt (''Error sending error to Discord: '' @ rejection_to_string r)])],
      Inr ())"
  by (simp add: sendErrorToDiscord_def error_notification_def io_defs split: option.splits)

lemma sendToDiscord_eq:
  "sendToDiscord svc w d =
     (case templateFn svc w d (clock_format w) of
        Inl e \<Rightarrow>
          (case error_to_string e of
             Inl type_error \<Rightarrow> ([], Inl type_error)
           | Inr text \<Rightarrow> ([LogError [Txt (''Error sending to Discord: '' @ text)]], Inr ()))
      | Inr payload \<Rightarrow>
          ([HttpPost (webhookUrl (config svc)) payload,
            (case http_post w (webhookUrl (config svc)) payload of
               None \<Rightarrow> Log [Txt ''Data sent to Discord successfully'']
             | Some r \<Rightarrow> LogError [Txt (''Error sending to Discord: '' @ rejection_to_string r)])],
           Inr ()))"
  by (simp add: sendToDiscord_def io_defs split: option.splits sum.splits)

lemma sendToDiscord_posts:
  "posts (events (sendToDiscord svc w d)) =
     (case templateFn svc w d (clock_format w) of
        Inl e \<Rightarrow> []
      | Inr payload \<Rightarrow> [(webhookUrl (config svc), payload)])"
  by (simp add: sendToDiscord_eq events_def split: sum.splits option.splits)

text \<open>
  The success delivery resolves whenever the template function returns a payload, and
  whenever it throws a value that the interpolation converts.
\<close>

lemma sendToDiscord_resolves:
  "(\<exists>p. templateFn svc w d (clock_format w) = Inr p)
   \<or> (\<exists>e text. templateFn svc w d (clock_format w) = Inl e \<and> error_to_string e = Inr text)
   \<Longrightarrow> outcome (sendToDiscord svc w d) = Inr ()"
  by (auto simp: sendToDiscord_eq outcome_def)

section \<open>Fetching and one cycle\<close>

lemma fetchData_outcome:
  "outcome (fetchData svc w) =
     (case fetch_stage svc w of
        Validated v \<Rightarrow> Inr (Some v)
      | Reported msg \<Rightarrow> Inr None
      | ConversionThrows type_error \<Rightarrow> Inl type_error)"
  by (simp add: fetchData_def fetch_stage_def caught_stage_def sendErrorToDiscord_eq io_defs
      split: option.splits sum.splits safe_parse.splits prod.splits)

lemma fetchData_posts:
  "posts (events (fetchData svc w)) =
     (case fetch_stage svc w of
        Validated v \<Rightarrow> []
      | Reported msg \<Rightarrow> [(webhookUrl (config svc), error_notification msg (clock_format w))]
      | ConversionThrows type_error \<Rightarrow> [])"
  by (simp add: fetchData_def fetch_stage_def caught_stage_def sendErrorToDiscord_eq io_defs
      split: option.splits sum.splits safe_parse.splits prod.splits)

lemma runPolling_outcome:
  "outcome (runPolling svc w) =
     (case fetch_stage svc w of
        Validated v \<Rightarrow> if truthy (repr svc v) then outcome (sendToDiscord svc w v) else Inr ()
      | Reported msg \<Rightarrow> Inr ()
      | ConversionThrows type_error \<Rightarrow> Inl type_error)"
proof -
  obtain tr r where f: "fetchData svc w = (tr, r)"
    by (cases "fetchData svc w")
  have "r = (case fetch_stage svc w of
        Validated v \<Rightarrow> Inr (Some v)
      | Reported msg \<Rightarrow> Inr None
      | ConversionThrows type_error \<Rightarrow> Inl type_error)"
    using fetchData_outcome [of svc w] f by (simp add: outcome_def)
  then show ?thesis
    by (simp add: runPolling_def f io_defs split: stage.splits)
qed

lemma runPolling_posts:
  "posts (events (runPolling svc w)) =
     (case fetch_stage svc w of
        Validated v \<Rightarrow>
          if truthy (repr svc v)
          then (case templateFn svc w v (clock_format w) of
                  Inl e \<Rightarrow> []
                | Inr payload \<Rightarrow> [(webhookUrl (config svc), payload)])
          else []
      | Reported msg \<Rightarrow> [(webhookUrl (config svc), error_notification msg (clock_format w))]
      | ConversionThrows type_error \<Rightarrow> [])"
proof -
  obtain tr r where f: "fetchData svc w = (tr, r)"
    by (cases "fetchData svc w")
  have r: "r = (case fetch_stage svc w of
        Validated v \<Rightarrow> Inr (Some v)
      | Reported msg \<Rightarrow> Inr None
      | ConversionThrows type_error \<Rightarrow> Inl type_error)"
    using fetchData_outcome [of svc w] f by (simp add: outcome_def)
  have p: "posts tr =
      (case fetch_stage svc w of
         Validated v \<Rightarrow> []
       | Reported msg \<Rightarrow> [(webhookUrl (config svc), error_notification msg (clock_format w))]
       | ConversionThrows type_error \<Rightarrow> [])"
    using fetchData_posts [of svc w] f by (simp add: events_def)
  show ?thesis
    using sendToDiscord_posts [of svc w]
    by (simp add: runPolling_def f r p io_defs split: stage.splits)
qed

lemmas example_defs = number_service_def throwing_service_def refining_service_def
  symbol_service_def opaque_service_def opaque_schema_def
  example_config_def example_world_def number_schema_def refining_schema_def
  connection_refused_def

section \<open>Claims about the deliveries\<close>

text \<open>
  C7. For every error message, the error notification that is POSTed to the webhook has the
  fixed shape: one embed with the title (a cross mark and \<open>Polling Error\<close>), the colour
  \<open>0xFF0000\<close> (16711680, red), the message as description, and a footer whose text is
  \<open>Polling\<close>, a bullet and the timestamp. It is the only POST of the call.
\<close>

theorem error_notification_shape:
  "posts (events (sendErrorToDiscord svc w msg)) =
     [(webhookUrl (config svc),
       JObj [(''embeds'', JArr [JObj [
         (''title'', JStr ([CHR 0xE2, CHR 0x9D, CHR 0x8C] @ '' Polling Error'')),
         (''color'', JNum (Finite 16711680)),
         (''description'', JStr msg),
         (''footer'', JObj [(''text'',
            JStr (''Polling '' @ [CHR 0xE2, CHR 0x80, CHR 0xA2] @ '' '' @ clock_format w))])]])])]"
  by (simp add: sendErrorToDiscord_eq events_def error_notification_def error_title_def
      error_footer_def split: option.splits)

text \<open>
  C10, at a template function that throws a \<open>Symbol\<close>. The catch block of \<open>sendToDiscord\<close>
  interpolates the caught value into its log line. For a \<open>Symbol\<close> the interpolation throws a
  \<open>TypeError\<close>, so the delivery rejects with that \<open>TypeError\<close>: nothing is POSTed and nothing
  is logged.
\<close>

theorem sendToDiscord_rejects_on_symbol:
  "sendToDiscord symbol_service (example_world (Inr (JNum (Finite 5))) None) (Finite 5)
     = ([], Inl (ErrorObj ''TypeError'' ''Cannot convert a Symbol value to a string'' None))"
  by (simp add: sendToDiscord_eq example_defs symbol_TypeError_def)

section \<open>Claims about fetching and about one cycle\<close>

text \<open>
  C2, as amended. When the GET answers and the schema accepts the answer, \<open>fetchData\<close>
  resolves to the validated value and POSTs nothing. When the GET fails, when the schema throws
  a value that \<open>String\<close> converts, and when the schema rejects the answer, \<open>fetchData\<close>
  resolves to \<open>null\<close>; the kind of failure is not part of the result, it is reported by
  \<open>fetchData\<close> itself in one error notification, whose message starts with
  \<open>Error fetching data: \<close> or \<open>Schema validation failed: \<close>.
\<close>

theorem fetchData_resolves:
  "(\<forall>v. fetch_stage svc w = Validated v \<longrightarrow>
        outcome (fetchData svc w) = Inr (Some v) \<and> posts (events (fetchData svc w)) = [])
   \<and> (\<forall>msg. fetch_stage svc w = Reported msg \<longrightarrow>
          outcome (fetchData svc w) = Inr None
          \<and> posts (events (fetchData svc w))
              = [(webhookUrl (config svc), error_notification msg (clock_format w))])"
  by (simp add: fetchData_outcome fetchData_posts)

theorem fetchData_resolves_witness:
  "outcome (fetchData (number_service 1) (example_world (Inr (JNum (Finite 7))) None))
     = Inr (Some (Finite 7))
   \<and> posts (events (fetchData (number_service 1) (example_world (Inr (JNum (Finite 7))) None))) = []
   \<and> outcome (fetchData (number_service 1) (example_world (Inl connection_refused) None)) = Inr None
   \<and> posts (events (fetchData (number_service 1) (example_world (Inl connection_refused) None)))
       = [(''http://hook.example/w'',
           error_notification ''Error fetching data: connect ECONNREFUSED 127.0.0.1:80''
             ''2024-05-01 12:00:00'')]
   \<and> outcome (fetchData refining_service (example_world (Inr (JNum (Finite (- 1)))) None)) = Inr None
   \<and> posts (events (fetchData refining_service (example_world (Inr (JNum (Finite (- 1)))) None)))
       = [(''http://hook.example/w'',
           error_notification ''Error fetching data: negative count'' ''2024-05-01 12:00:00'')]
   \<and> outcome (fetchData (number_service 1) (example_world (Inr (JStr ''many'')) None)) = Inr None
   \<and> posts (events (fetchData (number_service 1) (example_world (Inr (JStr ''many'')) None)))
       = [(''http://hook.example/w'',
           error_notification ''Schema validation failed: Expected number'' ''2024-05-01 12:00:00'')]"
proof -
  let ?ok = "example_world (Inr (JNum (Finite 7))) None"
  let ?refused = "example_world (Inl connection_refused) None"
  let ?negative = "example_world (Inr (JNum (Finite (- 1)))) None"
  let ?many = "example_world (Inr (JStr ''many'')) None"
  have a: "fetch_stage (number_service 1) ?ok = Validated (Finite 7)"
    by (simp add: fetch_stage_def example_defs)
  have b: "fetch_stage (number_service 1) ?refused
             = Reported ''Error fetching data: connect ECONNREFUSED 127.0.0.1:80''"
    by (simp add: fetch_stage_def caught_stage_def example_defs)
  have c: "fetch_stage refining_service ?negative = Reported ''Error fetching data: negative count''"
    by (simp add: fetch_stage_def caught_stage_def example_defs)
  have d: "fetch_stage (number_service 1) ?many
             = Reported ''Schema validation failed: Expected number''"
    by (simp add: fetch_stage_def example_defs)
  have "outcome (fetchData (number_service 1) ?ok) = Inr (Some (Finite 7))
        \<and> posts (events (fetchData (number_service 1) ?ok)) = []"
    using fetchData_resolves [of "number_service 1" ?ok] a by blast
  moreover have "outcome (fetchData (number_service 1) ?refused) = Inr None
        \<and> posts (events (fetchData (number_service 1) ?refused))
            = [(webhookUrl (config (number_service 1)),
                error_notification ''Error fetching data: connect ECONNREFUSED 127.0.0.1:80''
                  (clock_format ?refused))]"
    using fetchData_resolves [of "number_service 1" ?refused] b by blast
  moreover have "outcome (fetchData refining_service ?negative) = Inr None
        \<and> posts (events (fetchData refining_service ?negative))
            = [(webhookUrl (config refining_service),
                error_notification ''Error fetching data: negative count'' (clock_format ?negative))]"
    using fetchData_resolves [of refining_service ?negative] c by blast
  moreover have "outcome (fetchData (number_service 1) ?many) = Inr None
        \<and> posts (events (fetchData (number_service 1) ?many))
            = [(webhookUrl (config (number_service 1)),
                error_notification ''Schema validation failed: Expected number'' (clock_format ?many))]"
    using fetchData_resolves [of "number_service 1" ?many] d by blast
  ultimately show ?thesis
    by (simp add: example_defs)
qed

text \<open>
  C2 as stated fails: a refused connection and an answer that the schema rejects give the
  caller the same result, \<open>null\<close>, with no tag that tells them apart.
\<close>

theorem fetchData_untagged_counterexample:
  "outcome (fetchData (number_service 1) (example_world (Inl connection_refused) None)) = Inr None
   \<and> outcome (fetchData (number_service 1) (example_world (Inr (JStr ''many'')) None)) = Inr None"
  by (simp add: fetchData_outcome fetch_stage_def caught_stage_def example_defs)

text \<open>
  The first statement of the catch block of \<open>fetchData\<close> is \<open>String(error)\<close>. When the
  schema throws an object with no string conversion, that statement throws a \<open>TypeError\<close>:
  \<open>fetchData\<close> rejects, and nothing is POSTed.
\<close>

lemma fetchData_rejects_without_conversion:
  "outcome (fetchData opaque_service (example_world (Inr JNull) None)) = Inl object_TypeError
   \<and> posts (events (fetchData opaque_service (example_world (Inr JNull) None))) = []"
  by (simp add: fetchData_outcome fetchData_posts fetch_stage_def caught_stage_def example_defs)

text \<open>
  C3, at a template function that throws a \<open>Symbol\<close> and at a schema that throws an object
  with no string conversion. In the first cycle the GET and the validation succeed, the catch
  block of \<open>sendToDiscord\<close> throws a \<open>TypeError\<close> while it builds its log line, and the cycle
  rejects with it. In the second cycle the validation stage fails, the catch block of
  \<open>fetchData\<close> throws a \<open>TypeError\<close> in \<open>String(error)\<close>, and the cycle rejects with it: no
  error notification is POSTed.
\<close>

theorem runPolling_rejects_on_symbol:
  "outcome (runPolling symbol_service (example_world (Inr (JNum (Finite 5))) None))
     = Inl (ErrorObj ''TypeError'' ''Cannot convert a Symbol value to a string'' None)
   \<and> posts (events (runPolling symbol_service (example_world (Inr (JNum (Finite 5))) None))) = []
   \<and> outcome (runPolling opaque_service (example_world (Inr JNull) None))
       = Inl (ErrorObj ''TypeError'' ''Cannot convert object to primitive value'' None)
   \<and> posts (events (runPolling opaque_service (example_world (Inr JNull) None))) = []"
proof -
  let ?w = "example_world (Inr (JNum (Finite 5))) None"
  have s: "fetch_stage symbol_service ?w = Validated (Finite 5)"
    by (simp add: fetch_stage_def example_defs)
  have t: "truthy (repr symbol_service (Finite 5))"
    by (simp add: example_defs)
  have d: "sendToDiscord symbol_service ?w (Finite 5) = ([], Inl symbol_TypeError)"
    by (simp add: sendToDiscord_eq example_defs)
  have d': "outcome (sendToDiscord symbol_service ?w (Finite 5)) = Inl symbol_TypeError"
    by (simp add: d outcome_def)
  have a: "outcome (runPolling symbol_service ?w) = Inl symbol_TypeError"
    by (simp add: runPolling_outcome s t d')
  have b: "posts (events (runPolling symbol_service ?w)) = []"
    by (simp add: runPolling_posts s t) (simp add: example_defs)
  have o: "fetch_stage opaque_service (example_world (Inr JNull) None)
             = ConversionThrows object_TypeError"
    by (simp add: fetch_stage_def caught_stage_def example_defs)
  have c: "outcome (runPolling opaque_service (example_world (Inr JNull) None))
             = Inl object_TypeError"
    by (simp add: runPolling_outcome o)
  have e: "posts (events (runPolling opaque_service (example_world (Inr JNull) None))) = []"
    by (simp add: runPolling_posts o)
  from a b c e show ?thesis
    by (simp add: symbol_TypeError_def object_TypeError_def)
qed

text \<open>
  C6. When the GET answers and the schema rejects the answer, the cycle makes exactly one POST:
  the error notification whose description is \<open>Schema validation failed: \<close> followed by the
  validation error's message. No other notification is sent.
\<close>

theorem validation_failure_reported:
  assumes "http_get w (url (config svc)) = Inr d"
    and "schema svc d = Inr (ParseFailure err)"
  shows "posts (events (runPolling svc w))
           = [(webhookUrl (config svc),
               JObj [(''embeds'', JArr [JObj [
                 (''title'', JStr error_title),
                 (''color'', JNum (Finite 0xFF0000)),
                 (''description'', JStr (''Schema validation failed: '' @ error_text err)),
                 (''footer'', JObj [(''text'', JStr (error_footer (clock_format w)))])]])])]"
  using assms by (simp add: runPolling_posts fetch_stage_def error_notification_def)

theorem validation_failure_reported_witness:
  "posts (events (runPolling (number_service 1) (example_world (Inr (JBool True)) None)))
     = [(''http://hook.example/w'',
         JObj [(''embeds'', JArr [JObj [
           (''title'', JStr error_title),
           (''color'', JNum (Finite 0xFF0000)),
           (''description'', JStr ''Schema validation failed: Expected number''),
           (''footer'', JObj [(''text'', JStr (error_footer ''2024-05-01 12:00:00''))])]])])]"
proof -
  let ?w = "example_world (Inr (JBool True)) None"
  have g: "http_get ?w (url (config (number_service 1))) = Inr (JBool True)"
    by (simp add: example_defs)
  have s: "schema (number_service 1) (JBool True)
             = Inr (ParseFailure \<lparr>issues = [\<lparr>path = [], message = ''Expected number''\<rparr>],
                                   error_text = ''Expected number''\<rparr>)"
    by (simp add: example_defs)
  show ?thesis
    using validation_failure_reported [OF g s] by (simp add: example_defs)
qed

text \<open>
  C1, as amended. A cycle POSTs to the webhook at most once. When the GET fails, when the
  schema throws a value that \<open>String\<close> converts, and when the schema rejects the answer, the
  one POST is the error notification. When the GET and the validation succeed, the validated
  value is truthy and the template function returns a payload, the one POST is that payload.
  When they succeed, the value is truthy and the template function throws, nothing is POSTed.
\<close>

theorem tick_deliveries:
  "length (posts (events (runPolling svc w))) \<le> 1
   \<and> (\<forall>msg. fetch_stage svc w = Reported msg \<longrightarrow>
          posts (events (runPolling svc w))
            = [(webhookUrl (config svc), error_notification msg (clock_format w))])
   \<and> (\<forall>v p. fetch_stage svc w = Validated v \<and> truthy (repr svc v)
             \<and> templateFn svc w v (clock_format w) = Inr p \<longrightarrow>
          posts (events (runPolling svc w)) = [(webhookUrl (config svc), p)])
   \<and> (\<forall>v e. fetch_stage svc w = Validated v \<and> truthy (repr svc v)
             \<and> templateFn svc w v (clock_format w) = Inl e \<longrightarrow>
          posts (events (runPolling svc w)) = [])"
  by (simp add: runPolling_posts split: sum.splits stage.splits)

theorem tick_deliveries_witness:
  "posts (events (runPolling (number_service 1) (example_world (Inr JNull) None)))
     = [(''http://hook.example/w'',
         error_notification ''Schema validation failed: Expected number'' ''2024-05-01 12:00:00'')]
   \<and> posts (events (runPolling (number_service 1) (example_world (Inr (JNum (Finite 7))) None)))
       = [(''http://hook.example/w'', JObj [(''content'', JStr ''2024-05-01 12:00:00'')])]
   \<and> posts (events (runPolling throwing_service (example_world (Inr (JNum (Finite 7))) None))) = []"
proof -
  let ?bad = "example_world (Inr JNull) None"
  let ?ok = "example_world (Inr (JNum (Finite 7))) None"
  have a: "fetch_stage (number_service 1) ?bad
             = Reported ''Schema validation failed: Expected number''"
    by (simp add: fetch_stage_def example_defs)
  have b: "fetch_stage (number_service 1) ?ok = Validated (Finite 7)
           \<and> truthy (repr (number_service 1) (Finite 7))
           \<and> templateFn (number_service 1) ?ok (Finite 7) (clock_format ?ok)
               = Inr (JObj [(''content'', JStr ''2024-05-01 12:00:00'')])"
    by (simp add: fetch_stage_def example_defs)
  have c: "fetch_stage throwing_service ?ok = Validated (Finite 7)
           \<and> truthy (repr throwing_service (Finite 7))
           \<and> templateFn throwing_service ?ok (Finite 7) (clock_format ?ok)
               = Inl (ErrorObj ''Error'' ''template failed'' None)"
    by (simp add: fetch_stage_def example_defs)
  have "posts (events (runPolling (number_service 1) ?bad))
     = [(webhookUrl (config (number_service 1)),
         error_notification ''Schema validation failed: Expected number'' (clock_format ?bad))]"
    using tick_deliveries [of "number_service 1" ?bad] a by blast
  moreover have "posts (events (runPolling (number_service 1) ?ok))
       = [(webhookUrl (config (number_service 1)), JObj [(''content'', JStr ''2024-05-01 12:00:00'')])]"
    using tick_deliveries [of "number_service 1" ?ok] b by blast
  moreover have "posts (events (runPolling throwing_service ?ok)) = []"
    using tick_deliveries [of throwing_service ?ok] c by blast
  ultimately show ?thesis
    by (simp add: example_defs)
qed

text \<open>
  C1 as stated fails. With a template function that throws, the GET and the validation succeed
  and the cycle POSTs nothing. With the schema \<open>z.number()\<close> and the answer \<open>0\<close>, the
  validation succeeds, the value is falsy, and the cycle POSTs nothing either.
\<close>

theorem tick_delivers_neither_counterexample:
  "fetch_stage throwing_service (example_world (Inr (JNum (Finite 5))) None) = Validated (Finite 5)
   \<and> posts (events (runPolling throwing_service (example_world (Inr (JNum (Finite 5))) None))) = []
   \<and> fetch_stage (number_service 1) (example_world (Inr (JNum (Finite 0))) None) = Validated (Finite 0)
   \<and> posts (events (runPolling (number_service 1) (example_world (Inr (JNum (Finite 0))) None))) = []"
  by (simp add: runPolling_posts fetch_stage_def example_defs)

section \<open>Starting and stopping the schedule\<close>

lemma show_nat_45: "show_nat 45 = ''45''"
  by (simp add: show_nat.simps [of 45] show_nat.simps [of 4] digit_char_def)

lemma String_of_45: "String_of_number lib (Finite 45) = ''45''"
  by (simp add: String_of_number_def show_nat_45)

lemma cron_45: "cron_minutes ''*/45 * * * *'' = Some [0, 45]"
  by code_simp

lemma stop_outcome:
  "outcome (stop (svc, sch))
     = Inr (svc, case cronJob svc of None \<Rightarrow> sch | Some job \<Rightarrow> cron_stop sch job)"
  by (simp add: stop_def io_defs split: option.splits)

lemma cron_stop_idem: "cron_stop (cron_stop sch job) job = cron_stop sch job"
  by (simp add: cron_stop_def)

text \<open>
  C4, at the interval 45. \<open>start\<close> dispatches one cycle, registers the expression
  \<open>*/45 * * * *\<close> and returns. The registered task runs the cycle in the minutes 0 and 45 of
  every hour and in no other minute: after the run at minute 45 the next one comes 15 minutes
  later, at minute 60.
\<close>

theorem start_interval_45_fires_after_15:
  "start lib (number_service 45, []) =
     ([Dispatch, Log [Txt ''Polling started! Monitoring every 45 minutes...'']],
      Inr ((number_service 45)\<lparr>cronJob := Some 0\<rparr>,
           [\<lparr>expression = ''*/45 * * * *'', running = True\<rparr>]))
   \<and> (\<forall>t. fires_at \<lparr>expression = ''*/45 * * * *'', running = True\<rparr> t
            = (t mod 60 = 0 \<or> t mod 60 = 45))
   \<and> fires_at \<lparr>expression = ''*/45 * * * *'', running = True\<rparr> 45
   \<and> fires_at \<lparr>expression = ''*/45 * * * *'', running = True\<rparr> 60"
proof -
  have s: "start lib (number_service 45, []) =
     ([Dispatch, Log [Txt ''Polling started! Monitoring every 45 minutes...'']],
      Inr ((number_service 45)\<lparr>cronJob := Some 0\<rparr>,
           [\<lparr>expression = ''*/45 * * * *'', running = True\<rparr>]))"
    by (simp add: start_def io_defs number_service_def example_config_def String_of_45
        cron_schedule_def cron_45)
  have f: "fires_at \<lparr>expression = ''*/45 * * * *'', running = True\<rparr> t
            = (t mod 60 = 0 \<or> t mod 60 = 45)" for t
    by (auto simp: fires_at_def cron_45)
  show ?thesis
    using s by (simp add: f)
qed

text \<open>
  C5. \<open>stop\<close> never throws. With no job registered it does nothing at all. With a job
  registered it stops that job, which then runs in no minute. Stopping again leaves the state
  that the first stop left.
\<close>

theorem stop_idempotent:
  "outcome (stop (svc, sch))
     = Inr (svc, case cronJob svc of None \<Rightarrow> sch | Some job \<Rightarrow> cron_stop sch job)
   \<and> (cronJob svc = None \<longrightarrow> stop (svc, sch) = ([], Inr (svc, sch)))
   \<and> (\<forall>st'. outcome (stop (svc, sch)) = Inr st' \<longrightarrow> outcome (stop st') = Inr st')
   \<and> (\<forall>job st' t. cronJob svc = Some job \<and> job < length sch
          \<and> outcome (stop (svc, sch)) = Inr st' \<longrightarrow> \<not> fires_at (snd st' ! job) t)"
proof -
  have a: "outcome (stop (svc, sch))
     = Inr (svc, case cronJob svc of None \<Rightarrow> sch | Some job \<Rightarrow> cron_stop sch job)"
    by (rule stop_outcome)
  have b: "cronJob svc = None \<longrightarrow> stop (svc, sch) = ([], Inr (svc, sch))"
    by (simp add: stop_def io_defs)
  have c: "\<forall>st'. outcome (stop (svc, sch)) = Inr st' \<longrightarrow> outcome (stop st') = Inr st'"
    by (auto simp: stop_outcome cron_stop_idem split: option.splits)
  have d: "\<forall>job st' t. cronJob svc = Some job \<and> job < length sch
          \<and> outcome (stop (svc, sch)) = Inr st' \<longrightarrow> \<not> fires_at (snd st' ! job) t"
    by (auto simp: stop_outcome cron_stop_def fires_at_def)
  from a b c d show ?thesis by blast
qed

theorem stop_idempotent_witness:
  "stop (number_service 1, []) = ([], Inr (number_service 1, []))
   \<and> outcome (stop ((number_service 1)\<lparr>cronJob := Some 0\<rparr>,
                     [\<lparr>expression = ''*/1 * * * *'', running = True\<rparr>]))
       = Inr ((number_service 1)\<lparr>cronJob := Some 0\<rparr>,
              [\<lparr>expression = ''*/1 * * * *'', running = False\<rparr>])
   \<and> outcome (stop ((number_service 1)\<lparr>cronJob := Some 0\<rparr>,
                     [\<lparr>expression = ''*/1 * * * *'', running = False\<rparr>]))
       = Inr ((number_service 1)\<lparr>cronJob := Some 0\<rparr>,
              [\<lparr>expression = ''*/1 * * * *'', running = False\<rparr>])
   \<and> \<not> fires_at \<lparr>expression = ''*/1 * * * *'', running = False\<rparr> 7"
proof -
  let ?svc = "(number_service 1)\<lparr>cronJob := Some 0\<rparr>"
  let ?on = "[\<lparr>expression = ''*/1 * * * *'', running = True\<rparr>]"
  let ?off = "[\<lparr>expression = ''*/1 * * * *'', running = False\<rparr>]"
  have none: "cronJob (number_service 1) = None"
    by (simp add: number_service_def)
  have a: "stop (number_service 1, []) = ([], Inr (number_service 1, []))"
    using stop_idempotent [of "number_service 1" "[]"] none by blast
  have o: "outcome (stop (?svc, ?on)) = Inr (?svc, ?off)"
    using stop_idempotent [of ?svc ?on] by (simp add: cron_stop_def)
  have i: "outcome (stop (?svc, ?off)) = Inr (?svc, ?off)"
    using stop_idempotent [of ?svc ?on] o by blast
  have "cronJob ?svc = Some 0 \<and> 0 < length ?on \<and> outcome (stop (?svc, ?on)) = Inr (?svc, ?off)"
    using o by simp
  then have "\<not> fires_at (snd (?svc, ?off) ! 0) 7"
    using stop_idempotent [of ?svc ?on] by blast
  then have f: "\<not> fires_at \<lparr>expression = ''*/1 * * * *'', running = False\<rparr> 7"
    by simp
  from a o i f show ?thesis by blast
qed

section \<open>The scenario with a number written as a string\<close>

lemma show_nat_1234: "show_nat 1234 = ''1234''"
  by (simp add: show_nat.simps [of 1234] show_nat.simps [of 123] show_nat.simps [of 12]
      show_nat.simps [of "Suc 0"] digit_char_def)

lemma show_nat_5000: "show_nat 5000 = ''5000''"
  by (simp add: show_nat.simps [of 5000] show_nat.simps [of 500] show_nat.simps [of 50]
      show_nat.simps [of 5] digit_char_def)

lemma show_nat_20000: "show_nat 20000 = ''20000''"
  by (simp add: show_nat.simps [of 20000] show_nat.simps [of 2000] show_nat.simps [of 200]
      show_nat.simps [of 20] show_nat.simps [of 2] digit_char_def)

lemma digits_1234: "Number_of_string lib ''1234'' = Finite 1234"
  by (simp add: Number_of_string_def is_digit_def read_nat_def)

lemma locale_1234: "toLocaleString lib (Finite 1234) = ''1,234''"
  by (simp add: toLocaleString_def show_nat_1234)

lemma locale_5000: "toLocaleString lib (Finite 5000) = ''5,000''"
  by (simp add: toLocaleString_def show_nat_5000)

lemma locale_20000: "toLocaleString lib (Finite 20000) = ''20,000''"
  by (simp add: toLocaleString_def show_nat_20000)

lemma scenario_parse:
  "payloadSchema lib scenario_payload
     = ParseSuccess \<lparr>id_field = ''u1'', daily_active_users = Finite 1234,
                     weekly_active_users = Finite 5000, monthly_active_users = Finite 20000\<rparr>"
  by (simp add: payloadSchema_def scenario_payload_def get_prop_def z_string_def
      z_coerce_number_def digits_1234)

lemma scenario_fields:
  "embed_fields (createDiscordMessage lib penv w
      \<lparr>id_field = ''u1'', daily_active_users = Finite 1234,
        weekly_active_users = Finite 5000, monthly_active_users = Finite 20000\<rparr> ts)
     = [metric_field ''Daily Active Users'' ''**1,234**'',
        metric_field ''Weekly Active Users'' ''**5,000**'',
        metric_field ''Monthly Active Users'' ''**20,000**'']"
  by (simp add: embed_fields_def createDiscordMessage_def get_prop_def locale_1234
      locale_5000 locale_20000)

text \<open>
  The scenario with missing fields: for the answer \<open>{id: "u1"}\<close> the schema reports one issue
  for each of the three missing numbers, at the path of that field.
\<close>

lemma missing_fields_issues:
  "payloadSchema lib (JObj [(''id'', JStr ''u1'')])
     = failure lib [issue_at lib [''daily_active_users''] NotANumber,
                    issue_at lib [''weekly_active_users''] NotANumber,
                    issue_at lib [''monthly_active_users''] NotANumber]"
  by (simp add: payloadSchema_def get_prop_def z_string_def z_coerce_number_def)

text \<open>
  C9. The schema accepts the payload of the scenario and reads \<open>"1234"\<close> as the number 1234.
  With that payload as the answer of the GET, the cycle of the service that \<open>main\<close> builds
  makes one POST, and the three fields of its embed have the values \<open>**1,234**\<close>,
  \<open>**5,000**\<close> and \<open>**20,000**\<close>.
\<close>

theorem scenario_payload_formatted:
  "payloadSchema lib scenario_payload
     = ParseSuccess \<lparr>id_field = ''u1'', daily_active_users = Finite 1234,
                     weekly_active_users = Finite 5000, monthly_active_users = Finite 20000\<rparr>
   \<and> map (\<lambda>p. embed_fields (snd p))
       (posts (events (runPolling (new_PollingService lib penv env)
                         (w\<lparr>http_get := \<lambda>u. Inr scenario_payload\<rparr>))))
     = [[JObj [(''name'', JStr ''Daily Active Users''), (''value'', JStr ''**1,234**''),
               (''inline'', JBool True)],
         JObj [(''name'', JStr ''Weekly Active Users''), (''value'', JStr ''**5,000**''),
               (''inline'', JBool True)],
         JObj [(''name'', JStr ''Monthly Active Users''), (''value'', JStr ''**20,000**''),
               (''inline'', JBool True)]]]"
proof -
  let ?p = "\<lparr>id_field = ''u1'', daily_active_users = Finite 1234,
             weekly_active_users = Finite 5000, monthly_active_users = Finite 20000\<rparr>"
  let ?svc = "new_PollingService lib penv env"
  let ?w = "w\<lparr>http_get := \<lambda>u. Inr scenario_payload\<rparr>"
  have stage: "fetch_stage ?svc ?w = Validated ?p"
    by (simp add: fetch_stage_def new_PollingService_def scenario_parse)
  have t: "truthy (repr ?svc ?p)"
    by (simp add: new_PollingService_def Payload_repr_def)
  have f: "templateFn ?svc ?w ?p (clock_format ?w)
             = Inr (createDiscordMessage lib penv ?w ?p (clock_format ?w))"
    by (simp add: new_PollingService_def)
  have "posts (events (runPolling ?svc ?w))
          = [(webhookUrl (config ?svc), createDiscordMessage lib penv ?w ?p (clock_format ?w))]"
    by (simp only: runPolling_posts stage t f sum.case stage.case if_True)
  then have "map (\<lambda>p. embed_fields (snd p)) (posts (events (runPolling ?svc ?w)))
     = [[metric_field ''Daily Active Users'' ''**1,234**'',
         metric_field ''Weekly Active Users'' ''**5,000**'',
         metric_field ''Monthly Active Users'' ''**20,000**'']]"
    by (simp add: scenario_fields)
  then show ?thesis
    using scenario_parse [of lib] by (simp add: metric_field_def)
qed

section \<open>Loading an invalid configuration\<close>

lemma url_issues:
  "issues_of (z_string_url lib [k] (env_value v))
     = (case v of
          None \<Rightarrow> [issue_at lib [k] Required]
        | Some s \<Rightarrow> if is_url lib s then [] else [issue_at lib [k] InvalidUrl])"
  by (simp add: z_string_url_def z_string_def env_value_def split: option.splits)

lemma interval_issues:
  "issues_of (z_coerce_number_int_positive lib [k] v)
     = (if Number lib v = NaN then [issue_at lib [k] NotANumber]
        else (if isInteger (Number lib v) then [] else [issue_at lib [k] NotInteger])
             @ (if isPositive (Number lib v) then [] else [issue_at lib [k] NotPositive]))"
  by (simp add: z_coerce_number_int_positive_def z_coerce_number_def Let_def)

lemma EnvSchema_failure:
  assumes "env_issues lib penv \<noteq> []"
  shows "EnvSchema lib (JObj [(''POLL_URL'', env_value (penv ''POLL_URL'')),
                              (''POLL_INTERVAL'', env_value (penv ''POLL_INTERVAL'')),
                              (''DISCORD_WEBHOOK_URL'', env_value (penv ''DISCORD_WEBHOOK_URL''))])
           = failure lib (env_issues lib penv)"
proof -
  let ?r1 = "z_string_url lib [''POLL_URL''] (env_value (penv ''POLL_URL''))"
  let ?r2 = "z_coerce_number_int_positive lib [''POLL_INTERVAL''] (env_value (penv ''POLL_INTERVAL''))"
  let ?r3 = "z_string_url lib [''DISCORD_WEBHOOK_URL''] (env_value (penv ''DISCORD_WEBHOOK_URL''))"
  have "\<not> ((\<exists>u. ?r1 = Inr u) \<and> (\<exists>n. ?r2 = Inr n) \<and> (\<exists>h. ?r3 = Inr h))"
    using assms by (auto simp: env_issues_def)
  then show ?thesis
    by (auto simp: EnvSchema_def get_prop_def env_issues_def Let_def split: sum.splits)
qed

lemma loadEnvs_failure:
  assumes "env_issues lib penv \<noteq> []"
  shows "loadEnvs lib penv
           = (LogError [Txt ''Invalid environment configuration:'']
                # map (\<lambda>i. LogError [Txt (''- '' @ join ''.'' (path i) @ '': '' @ message i)])
                      (env_issues lib penv),
              Inl (ErrorObj ''Error'' ''Invalid environment configuration'' None))"
  by (simp add: loadEnvs_def Let_def EnvSchema_failure [OF assms] failure_def for_each_single
      io_defs)

lemma invalid_field_has_issue:
  assumes "k \<in> set (invalid_fields lib penv)"
  shows "\<exists>i \<in> set (env_issues lib penv). path i = [k]"
proof -
  from assms consider
      (u) "k = ''POLL_URL''" "\<not> field_valid lib penv ''POLL_URL''"
    | (n) "k = ''POLL_INTERVAL''" "\<not> field_valid lib penv ''POLL_INTERVAL''"
    | (h) "k = ''DISCORD_WEBHOOK_URL''" "\<not> field_valid lib penv ''DISCORD_WEBHOOK_URL''"
    by (auto simp: invalid_fields_def split: if_splits)
  then show ?thesis
  proof cases
    case u
    then have "\<exists>i \<in> set (issues_of (z_string_url lib [''POLL_URL''] (env_value (penv ''POLL_URL'')))).
                 path i = [''POLL_URL'']"
      by (auto simp: field_valid_def url_issues issue_at_def split: option.splits)
    with u show ?thesis by (auto simp: env_issues_def)
  next
    case n
    then have "\<exists>i \<in> set (issues_of (z_coerce_number_int_positive lib [''POLL_INTERVAL'']
                                      (env_value (penv ''POLL_INTERVAL'')))).
                 path i = [''POLL_INTERVAL'']"
      by (auto simp: field_valid_def interval_issues issue_at_def)
    with n show ?thesis by (auto simp: env_issues_def)
  next
    case h
    then have "\<exists>i \<in> set (issues_of (z_string_url lib [''DISCORD_WEBHOOK_URL'']
                                      (env_value (penv ''DISCORD_WEBHOOK_URL'')))).
                 path i = [''DISCORD_WEBHOOK_URL'']"
      by (auto simp: field_valid_def url_issues issue_at_def split: option.splits)
    with h show ?thesis by (auto simp: env_issues_def)
  qed
qed

lemma main_failure:
  assumes "loadEnvs lib penv = (tr, Inl e)"
  shows "main lib penv sch
           = (tr @ [LogError [Txt ''Failed to start polling service:'', Err e],
                    LogError [Txt ''Make sure you have properly configured the environment variables:''],
                    LogError [Txt ''- POLL_URL: The URL to poll data from''],
                    LogError [Txt ''- POLL_INTERVAL: How often to poll in minutes''],
                    LogError [Txt ''- DISCORD_WEBHOOK_URL: Discord webhook URL to send notifications''],
                    Exit 1],
              Inr None)"
  by (simp add: main_def assms io_defs)

text \<open>
  C8. When at least one of the three configuration values is missing or invalid, \<open>loadEnvs\<close>
  throws, and \<open>main\<close> ends with \<open>process.exit(1)\<close>: it leaves no service, it has dispatched
  no cycle, and its output starts with the diagnostic of \<open>loadEnvs\<close>. That diagnostic has a
  line \<open>- FIELD: message\<close> for every invalid field.
\<close>

theorem invalid_config_prevents_start:
  assumes "invalid_fields lib penv \<noteq> []"
  shows "outcome (loadEnvs lib penv)
           = Inl (ErrorObj ''Error'' ''Invalid environment configuration'' None)
         \<and> outcome (main lib penv sch) = Inr None
         \<and> Dispatch \<notin> set (events (main lib penv sch))
         \<and> last (events (main lib penv sch)) = Exit 1
         \<and> take (length (events (loadEnvs lib penv))) (events (main lib penv sch))
             = events (loadEnvs lib penv)
         \<and> (\<forall>k \<in> set (invalid_fields lib penv).
               \<exists>m. LogError [Txt (''- '' @ k @ '': '' @ m)] \<in> set (events (loadEnvs lib penv)))"
proof -
  let ?line = "\<lambda>i. LogError [Txt (''- '' @ join ''.'' (path i) @ '': '' @ message i)]"
  let ?tr = "LogError [Txt ''Invalid environment configuration:''] # map ?line (env_issues lib penv)"
  let ?e = "ErrorObj ''Error'' ''Invalid environment configuration'' None"
  from assms obtain k where k: "k \<in> set (invalid_fields lib penv)"
    by (cases "invalid_fields lib penv") auto
  then have ne: "env_issues lib penv \<noteq> []"
    using invalid_field_has_issue [of k lib penv] by auto
  have l: "loadEnvs lib penv = (?tr, Inl ?e)"
    by (rule loadEnvs_failure [OF ne])
  have m: "main lib penv sch
           = (?tr @ [LogError [Txt ''Failed to start polling service:'', Err ?e],
                    LogError [Txt ''Make sure you have properly configured the environment variables:''],
                    LogError [Txt ''- POLL_URL: The URL to poll data from''],
                    LogError [Txt ''- POLL_INTERVAL: How often to poll in minutes''],
                    LogError [Txt ''- DISCORD_WEBHOOK_URL: Discord webhook URL to send notifications''],
                    Exit 1],
              Inr None)"
    by (rule main_failure [OF l])
  have a: "outcome (loadEnvs lib penv) = Inl ?e"
    by (simp add: l outcome_def)
  have b: "outcome (main lib penv sch) = Inr None"
    by (simp add: m outcome_def)
  have c: "Dispatch \<notin> set (events (main lib penv sch))"
    by (auto simp: m events_def)
  have d: "last (events (main lib penv sch)) = Exit 1"
    by (simp add: m events_def)
  have e: "take (length (events (loadEnvs lib penv))) (events (main lib penv sch))
             = events (loadEnvs lib penv)"
    by (simp add: l m events_def)
  have f: "\<exists>m. LogError [Txt (''- '' @ k' @ '': '' @ m)] \<in> set (events (loadEnvs lib penv))"
    if "k' \<in> set (invalid_fields lib penv)" for k'
  proof -
    from invalid_field_has_issue [OF that] obtain i
      where i1: "i \<in> set (env_issues lib penv)" and i2: "path i = [k']" by auto
    from i1 have "?line i \<in> set (events (loadEnvs lib penv))"
      by (simp add: l events_def)
    then have "LogError [Txt (''- '' @ k' @ '': '' @ message i)] \<in> set (events (loadEnvs lib penv))"
      by (simp add: i2)
    then show ?thesis by blast
  qed
  from a b c d e f show ?thesis by blast
qed

theorem invalid_config_prevents_start_witness:
  "invalid_fields example_library example_env = [''POLL_INTERVAL'', ''DISCORD_WEBHOOK_URL'']
   \<and> outcome (loadEnvs example_library example_env)
       = Inl (ErrorObj ''Error'' ''Invalid environment configuration'' None)
   \<and> outcome (main example_library example_env []) = Inr None
   \<and> last (events (main example_library example_env [])) = Exit 1
   \<and> (\<exists>m. LogError [Txt (''- POLL_INTERVAL: '' @ m)]
            \<in> set (events (loadEnvs example_library example_env)))
   \<and> (\<exists>m. LogError [Txt (''- DISCORD_WEBHOOK_URL: '' @ m)]
            \<in> set (events (loadEnvs example_library example_env)))"
proof -
  have i: "invalid_fields example_library example_env = [''POLL_INTERVAL'', ''DISCORD_WEBHOOK_URL'']"
    by (simp add: invalid_fields_def field_valid_def example_library_def example_env_def
        env_value_def)
  then have ne: "invalid_fields example_library example_env \<noteq> []"
    by simp
  note t = invalid_config_prevents_start [OF ne, of "[]"]
  have "\<forall>k \<in> set [''POLL_INTERVAL'', ''DISCORD_WEBHOOK_URL''].
          \<exists>m. LogError [Txt (''- '' @ k @ '': '' @ m)]
                 \<in> set (events (loadEnvs example_library example_env))"
    using t i by simp
  then have "(\<exists>m. LogError [Txt (''- POLL_INTERVAL: '' @ m)]
                 \<in> set (events (loadEnvs example_library example_env)))
           \<and> (\<exists>m. LogError [Txt (''- DISCORD_WEBHOOK_URL: '' @ m)]
                 \<in> set (events (loadEnvs example_library example_env)))"
    by simp
  with t i show ?thesis by blast
qed


end
